theory Spec2Isabelle
  imports Main "HOL-Library.Word"
begin

unbundle bit_operations_syntax

section \<open>The Art-Net receiver of \<^verbatim>\<open>sys_artnet_in.py\<close>\<close>

text \<open>
  The receive path of the add-on: the two header builders, the frame check of
  \<^verbatim>\<open>Receiver.handle_data\<close>, the copy loop into the channel buffer, the channel
  accessors and \<^verbatim>\<open>close\<close>. Python's \<^verbatim>\<open>bytes\<close> and \<^verbatim>\<open>bytearray\<close> values are
  lists of 8-bit words, Python integers are \<open>int\<close>, an exception is the \<open>Inl\<close> side of a
  sum. A \<^verbatim>\<open>bytearray\<close> is a mutable object that several names may refer to, so the
  channel buffers live in a store indexed by object identity. The background thread is
  not modelled as a concurrent process: every function is the sequential effect of one
  call. \<^verbatim>\<open>log\<close> only prints and is left out.
\<close>

subsection \<open>Values\<close>

type_synonym byte = "8 word"

datatype error = IndexError | RuntimeError | OSError

text \<open>Object identity of a \<^verbatim>\<open>bytearray\<close>, and the store of all of them.\<close>

type_synonym addr = nat
type_synonym heap = "addr \<Rightarrow> byte list"

text \<open>\<^verbatim>\<open>buf[i]\<close> for a Python integer \<open>i\<close>: a negative index counts from the end, an
  index outside \<open>-len \<dots> len - 1\<close> raises \<^verbatim>\<open>IndexError\<close>. Reading an element of a
  \<^verbatim>\<open>bytearray\<close> gives an integer in \<open>0 \<dots> 255\<close>.\<close>

definition getitem :: "byte list \<Rightarrow> int \<Rightarrow> error + int" where
  "getitem buf i =
     (let n = int (length buf) in
      if 0 \<le> i \<and> i < n then Inr (uint (buf ! nat i))
      else if - n \<le> i \<and> i < 0 then Inr (uint (buf ! nat (n + i)))
      else Inl IndexError)"

text \<open>\<^verbatim>\<open>str(n)\<close> for a length \<open>n\<close>, as the f-string of the status line formats it.\<close>

definition digit_char :: "nat \<Rightarrow> char" where
  "digit_char d = char_of (48 + d)"

function str_nat :: "nat \<Rightarrow> string" where
  "str_nat n = (if n < 10 then [digit_char n] else str_nat (n div 10) @ [digit_char (n mod 10)])"
  by pat_completeness auto
termination
  by (relation "measure id") auto

declare str_nat.simps [simp del]

subsection \<open>Header builders\<close>

text \<open>\<^verbatim>\<open>_build_data_header\<close>: universe low byte, universe high byte, \<open>0x02\<close>, \<open>0x00\<close>.
  In Python \<^verbatim>\<open>>>\<close> binds tighter than \<^verbatim>\<open>&\<close>, and \<^verbatim>\<open>>>\<close> on a negative integer
  is the arithmetic shift, as \<open>drop_bit\<close> on \<open>int\<close> is. Both values are masked with
  \<open>0xFF\<close>, so the range check of the \<^verbatim>\<open>bytearray\<close> constructor always passes.\<close>

definition build_data_header :: "int \<Rightarrow> byte list" where
  "build_data_header artnet_universe =
     [word_of_int (artnet_universe AND 0xFF),
      word_of_int (drop_bit 8 artnet_universe AND 0xFF),
      0x02, 0x00]"

text \<open>\<^verbatim>\<open>_build_artnet_header\<close>: the characters of \<^verbatim>\<open>"Art-Net"\<close>, a terminating zero,
  the two opcode bytes, the two version bytes, and two more bytes for the frame number.\<close>

definition build_artnet_header :: "byte list" where
  "build_artnet_header =
     (let header_base = map (\<lambda>c. word_of_nat (of_char c)) ''Art-Net'';
          header_base = header_base @ [0x00];
          header_base = header_base @ [0x00, 0x50];
          header_base = header_base @ [0x00, 0x0e];
          frame_number = 0x00
      in header_base @ [frame_number, 0x00])"

subsection \<open>The channel buffer\<close>

text \<open>\<^verbatim>\<open>copy_channels_to_buffer\<close>. The loop \<^verbatim>\<open>for i in range(copy_length)\<close> runs over
  the indices in order; each step reads \<^verbatim>\<open>channels[i]\<close> and stores it at
  \<^verbatim>\<open>channels_out_buffer[i]\<close>, and either access raises \<^verbatim>\<open>IndexError\<close> when \<open>i\<close> is out
  of range.\<close>

fun copy_loop :: "nat list \<Rightarrow> byte list \<Rightarrow> byte list \<Rightarrow> error + byte list" where
  "copy_loop [] channels channels_out_buffer = Inr channels_out_buffer"
| "copy_loop (i # rest) channels channels_out_buffer =
     (if i < length channels \<and> i < length channels_out_buffer
      then copy_loop rest channels (channels_out_buffer[i := channels ! i])
      else Inl IndexError)"

definition copy_channels_to_buffer :: "byte list \<Rightarrow> byte list \<Rightarrow> error + byte list" where
  "copy_channels_to_buffer channels channels_out_buffer =
     (let received_channel_length = length channels;
          max_acceptable_channel_length = length channels_out_buffer;
          copy_length = min max_acceptable_channel_length received_channel_length
      in copy_loop [0..<copy_length] channels channels_out_buffer)"

subsection \<open>The receiver object\<close>

text \<open>A UDP socket as far as the receiver uses it: the address it is bound to and whether
  it has been closed. \<^verbatim>\<open>socket.close()\<close> may be called on a closed socket.\<close>

record socket =
  sock_addr :: "(string \<times> int) option"
  sock_closed :: bool

text \<open>The attributes of \<^verbatim>\<open>Receiver\<close>. The three private attributes \<^verbatim>\<open>_artnet_header\<close>,
  \<^verbatim>\<open>_data_header\<close> and \<^verbatim>\<open>_channels\<close> carry the prefix \<open>priv\<close>; \<^verbatim>\<open>_channels\<close> is a
  reference to a \<^verbatim>\<open>bytearray\<close> in the store.\<close>

record Receiver =
  sock :: "socket option"
  udp_ip :: string
  udp_port :: int
  artnet_universe :: int
  priv_artnet_header :: "byte list"
  priv_data_header :: "byte list"
  priv_channels :: addr
  do_receive :: bool
  status :: string

text \<open>The default value of the parameter \<^verbatim>\<open>channel_buffer\<close> is evaluated once, when
  the \<^verbatim>\<open>def\<close> statement runs: one \<^verbatim>\<open>bytearray\<close> of 512 zeros for \<^verbatim>\<open>Receiver.__init__\<close>
  and another one for \<^verbatim>\<open>MultithreadReceiver.__init__\<close>. They are the first two objects of
  the store after the module has been loaded.\<close>

definition Receiver_default_buffer :: addr where
  "Receiver_default_buffer = 0"

definition MultithreadReceiver_default_buffer :: addr where
  "MultithreadReceiver_default_buffer = 1"

definition module_heap :: heap where
  "module_heap = (\<lambda>a. []) (Receiver_default_buffer := replicate 512 0x00,
                           MultithreadReceiver_default_buffer := replicate 512 0x00)"

text \<open>\<^verbatim>\<open>Receiver.__init__\<close>; \<open>None\<close> for \<open>channel_buffer\<close> is a call that leaves the
  argument out.\<close>

definition Receiver_init :: "string \<Rightarrow> int \<Rightarrow> int \<Rightarrow> addr option \<Rightarrow> Receiver" where
  "Receiver_init ip port universe channel_buffer =
     \<lparr> sock = None, udp_ip = ip, udp_port = port, artnet_universe = universe,
       priv_artnet_header = build_artnet_header,
       priv_data_header = build_data_header universe,
       priv_channels = (case channel_buffer of None \<Rightarrow> Receiver_default_buffer | Some b \<Rightarrow> b),
       do_receive = False, status = ''Inactive'' \<rparr>"

text \<open>\<^verbatim>\<open>handle_data\<close>: the slices \<^verbatim>\<open>data[0:12]\<close>, \<^verbatim>\<open>data[14:18]\<close> and \<^verbatim>\<open>data[18:]\<close>
  never raise, they are shorter when \<open>data\<close> is. The buffer argument is a reference;
  the copy mutates the object it refers to.\<close>

definition handle_data ::
  "'a Receiver_scheme \<Rightarrow> heap \<Rightarrow> addr \<Rightarrow> byte list \<Rightarrow> error + ('a Receiver_scheme \<times> heap)" where
  "handle_data self h channel_buffer data =
     (let header_base = take 12 data;
          expected_header_base = take 12 (priv_artnet_header self)
      in if header_base = expected_header_base then
           (let data_header = take 4 (drop 14 data)
            in if data_header = priv_data_header self then
                 (let channels = drop 18 data
                  in case copy_channels_to_buffer channels (h channel_buffer) of
                       Inl e \<Rightarrow> Inl e
                     | Inr out \<Rightarrow>
                         Inr (self\<lparr>status := ''Receiving '' @ str_nat (length channels) @ '' Channels''\<rparr>,
                              h(channel_buffer := out)))
               else Inr (self\<lparr>status := ''Invalid Data''\<rparr>, h))
         else Inr (self\<lparr>status := ''Invalid Data''\<rparr>, h))"

text \<open>What \<^verbatim>\<open>sock.recvfrom(1024)\<close> can do: deliver a datagram, time out, or raise
  another exception with a message.\<close>

datatype recv = Datagram "byte list" | TimeoutError | OtherException string

definition receive_into_buffer ::
  "'a Receiver_scheme \<Rightarrow> heap \<Rightarrow> addr \<Rightarrow> recv \<Rightarrow> error + ('a Receiver_scheme \<times> heap)" where
  "receive_into_buffer self h channel_buffer r =
     (case r of
        TimeoutError \<Rightarrow> Inr (self\<lparr>status := ''Timeout''\<rparr>, h)
      | OtherException e \<Rightarrow> Inr (self\<lparr>status := ''Error '' @ e\<rparr>, h)
      | Datagram data \<Rightarrow> handle_data self h channel_buffer data)"

definition receive_next :: "'a Receiver_scheme \<Rightarrow> heap \<Rightarrow> recv \<Rightarrow> error + ('a Receiver_scheme \<times> heap)" where
  "receive_next self h r = receive_into_buffer self h (priv_channels self) r"

definition get_channels :: "'a Receiver_scheme \<Rightarrow> heap \<Rightarrow> byte list" where
  "get_channels self h = h (priv_channels self)"

definition get_channel :: "'a Receiver_scheme \<Rightarrow> heap \<Rightarrow> int \<Rightarrow> error + int" where
  "get_channel self h channel = getitem (h (priv_channels self)) channel"

text \<open>\<^verbatim>\<open>Receiver.close\<close>: a socket object is always true in \<^verbatim>\<open>if self.sock\<close>, so the
  test only asks whether the attribute is \<^verbatim>\<open>None\<close>.\<close>

definition Receiver_close :: "'a Receiver_scheme \<Rightarrow> 'a Receiver_scheme" where
  "Receiver_close self =
     (let self = (case sock self of
                    Some s \<Rightarrow> self\<lparr>sock := Some (s\<lparr>sock_closed := True\<rparr>)\<rparr>
                  | None \<Rightarrow> self)
      in self\<lparr>status := ''Inactive''\<rparr>)"

text \<open>\<^verbatim>\<open>Receiver.open\<close>. The data header is rebuilt from the current universe, a new
  socket replaces the old one and is bound; \<^verbatim>\<open>bind\<close> raises \<^verbatim>\<open>OSError\<close> when the
  address cannot be bound, which the argument \<open>bind_ok\<close> decides. An exception leaves the
  object as it was at the raise, so the error carries that state. The receive timeout
  set on the socket has no part in what follows and is not recorded.\<close>

definition Receiver_open ::
  "bool \<Rightarrow> 'a Receiver_scheme \<Rightarrow> (error \<times> 'a Receiver_scheme) + 'a Receiver_scheme" where
  "Receiver_open bind_ok self =
     (let self = self\<lparr>priv_data_header := build_data_header (artnet_universe self)\<rparr>;
          self = self\<lparr>sock := Some \<lparr>sock_addr = None, sock_closed = False\<rparr>\<rparr>
      in if \<not> bind_ok then Inl (OSError, self)
         else
           (let self = self\<lparr>sock := Some \<lparr>sock_addr = Some (udp_ip self, udp_port self),
                                          sock_closed = False\<rparr>\<rparr>
            in Inr (self\<lparr>do_receive := True\<rparr>)))"

subsection \<open>The receiver with a background thread\<close>

text \<open>A \<^verbatim>\<open>threading.Thread\<close> as far as \<^verbatim>\<open>close\<close> uses it: \<^verbatim>\<open>join\<close> raises
  \<^verbatim>\<open>RuntimeError\<close> on a thread that was never started and returns otherwise, whether
  the thread ended within the three seconds or not.\<close>

record thread =
  thread_started :: bool

definition thread_join :: "thread \<Rightarrow> error + unit" where
  "thread_join t = (if thread_started t then Inr () else Inl RuntimeError)"

record MultithreadReceiver = Receiver +
  priv_thread :: "thread option"
  stop_event :: bool

definition MultithreadReceiver_init ::
  "string \<Rightarrow> int \<Rightarrow> int \<Rightarrow> addr option \<Rightarrow> MultithreadReceiver" where
  "MultithreadReceiver_init ip port universe channel_buffer =
     (let channel_buffer =
            (case channel_buffer of None \<Rightarrow> MultithreadReceiver_default_buffer | Some b \<Rightarrow> b)
      in Receiver.extend (Receiver_init ip port universe (Some channel_buffer))
           (MultithreadReceiver.fields None False))"

text \<open>\<^verbatim>\<open>MultithreadReceiver.close\<close>: clear the flag, set the event, join the thread when
  there is one, then \<^verbatim>\<open>Receiver.close\<close>.\<close>

definition MultithreadReceiver_close ::
  "MultithreadReceiver \<Rightarrow> (error \<times> MultithreadReceiver) + MultithreadReceiver" where
  "MultithreadReceiver_close self =
     (let self = self\<lparr>do_receive := False\<rparr>;
          self = self\<lparr>stop_event := True\<rparr>
      in case (case priv_thread self of Some t \<Rightarrow> thread_join t | None \<Rightarrow> Inr ()) of
           Inl e \<Rightarrow> Inl (e, self)
         | Inr _ \<Rightarrow> Inr (Receiver_close self))"

text \<open>\<^verbatim>\<open>MultithreadReceiver.open\<close>: close first when the receiver is running, open the
  socket, then create and start the thread.\<close>

definition MultithreadReceiver_open ::
  "bool \<Rightarrow> MultithreadReceiver \<Rightarrow> (error \<times> MultithreadReceiver) + MultithreadReceiver" where
  "MultithreadReceiver_open bind_ok self =
     (case (if do_receive self then MultithreadReceiver_close self else Inr self) of
        Inl e \<Rightarrow> Inl e
      | Inr self \<Rightarrow>
          (case Receiver_open bind_ok self of
             Inl e \<Rightarrow> Inl e
           | Inr self \<Rightarrow> Inr (self\<lparr>priv_thread := Some \<lparr>thread_started = True\<rparr>\<rparr>)))"

subsection \<open>The module\<close>

text \<open>The module keeps one global \<^verbatim>\<open>receiver = MultithreadReceiver()\<close>, built with all
  defaults when the module is loaded.\<close>

record module =
  m_heap :: heap
  receiver :: MultithreadReceiver

definition module_init :: module where
  "module_init =
     \<lparr> m_heap = module_heap,
       receiver = MultithreadReceiver_init ''127.0.0.1'' 6454 0 None \<rparr>"

text \<open>Neither class defines \<^verbatim>\<open>__bool__\<close> nor \<^verbatim>\<open>__len__\<close>, so \<^verbatim>\<open>if receiver\<close> is true for
  every receiver object.\<close>

definition MultithreadReceiver_bool :: "MultithreadReceiver \<Rightarrow> bool" where
  "MultithreadReceiver_bool self = True"

definition get_dmx_channel :: "module \<Rightarrow> int \<Rightarrow> error + int" where
  "get_dmx_channel m channel =
     (if MultithreadReceiver_bool (receiver m) then
        (case get_channel (receiver m) (m_heap m) channel of
           Inl e \<Rightarrow> Inl e
         | Inr channel_value \<Rightarrow> Inr channel_value)
      else Inr 0)"

text \<open>One datagram, timeout or socket error handled by the global receiver's thread,
  which was started on \<^verbatim>\<open>self._channels\<close>.\<close>

definition module_receive :: "module \<Rightarrow> recv \<Rightarrow> error + module" where
  "module_receive m r =
     (case receive_next (receiver m) (m_heap m) r of
        Inl e \<Rightarrow> Inl e
      | Inr (self, h) \<Rightarrow> Inr (m\<lparr>m_heap := h, receiver := self\<rparr>))"

section \<open>Properties\<close>

subsection \<open>The copy loop and the frame check\<close>

text \<open>The loop over \<open>[k..<n]\<close> overwrites exactly the positions \<open>k \<dots> n - 1\<close> and never
  leaves the two sequences, as long as \<open>n\<close> is within both.\<close>

lemma copy_loop_upt:
  "k \<le> n \<Longrightarrow> n \<le> length channels \<Longrightarrow> n \<le> length out \<Longrightarrow>
   copy_loop [k..<n] channels out = Inr (take k out @ take (n - k) (drop k channels) @ drop n out)"
proof (induction "n - k" arbitrary: k out)
  case 0
  then show ?case by simp
next
  case (Suc d)
  then have kn: "k < n" by simp
  have step: "[k..<n] = k # [Suc k..<n]" using kn by (simp add: upt_rec)
  have ih: "copy_loop [Suc k..<n] channels (out[k := channels ! k]) =
      Inr (take (Suc k) (out[k := channels ! k]) @ take (n - Suc k) (drop (Suc k) channels) @ drop n (out[k := channels ! k]))"
    using Suc kn by (intro Suc.hyps(1)) auto
  have a: "take (Suc k) (out[k := channels ! k]) = take k out @ [channels ! k]"
    using Suc.prems kn by (simp add: take_Suc_conv_app_nth)
  have b: "drop n (out[k := channels ! k]) = drop n out" using kn by simp
  have c: "take (n - k) (drop k channels) = channels ! k # take (n - Suc k) (drop (Suc k) channels)"
    using Suc.prems kn by (metis Cons_nth_drop_Suc Suc_diff_Suc less_le_trans take_Suc_Cons)
  show ?case using Suc.prems kn by (simp add: step ih a b c del: upt_Suc)
qed

lemma copy_channels_to_buffer_eq:
  "copy_channels_to_buffer channels out =
     Inr (take (min (length out) (length channels)) channels @ drop (min (length out) (length channels)) out)"
  using copy_loop_upt [of 0 "min (length out) (length channels)" channels out]
  by (simp add: copy_channels_to_buffer_def Let_def)

lemma length_build_data_header: "length (build_data_header u) = 4"
  by (simp add: build_data_header_def)

text \<open>The bytes of the universe header are the two masked values themselves, and two
  universes below 65536 with the same header are equal.\<close>

lemma mask_byte: "0 \<le> (k::int) AND 0xFF \<and> k AND 0xFF < 256"
proof -
  have "k AND 0xFF = take_bit 8 k"
    by (simp add: take_bit_eq_mask mask_eq_exp_minus_1)
  moreover have "take_bit 8 k < (2::int) ^ 8" by (rule take_bit_int_less_exp)
  ultimately show ?thesis by simp
qed

lemma uint_build_data_header:
  "map uint (build_data_header u) = [u AND 0xFF, drop_bit 8 u AND 0xFF, 2, 0]"
proof -
  have "uint (word_of_int (k AND 0xFF) :: byte) = k AND 0xFF" for k :: int
    using mask_byte [of k] by (simp add: uint_word_of_int take_bit_eq_mod)
  then show ?thesis by (simp add: build_data_header_def)
qed

lemma build_data_header_inj:
  assumes "0 \<le> u" "u < 65536" "0 \<le> v" "v < 65536"
    and "build_data_header u = build_data_header v"
  shows "u = v"
proof -
  have "map uint (build_data_header u) = map uint (build_data_header v)"
    using assms(5) by simp
  then have lo: "take_bit 8 u = take_bit 8 v" and hi: "take_bit 8 (drop_bit 8 u) = take_bit 8 (drop_bit 8 v)"
    by (simp_all add: uint_build_data_header take_bit_eq_mask mask_eq_exp_minus_1)
  have "drop_bit 8 u < 256" "drop_bit 8 v < 256" "0 \<le> drop_bit 8 u" "0 \<le> drop_bit 8 v"
    using assms(1-4) by (simp_all add: drop_bit_eq_div)
  then have "drop_bit 8 u = drop_bit 8 v"
    using hi by (simp add: take_bit_eq_mod)
  then show ?thesis
    using lo by (metis bits_ident)
qed

lemma build_artnet_header_bytes:
  "build_artnet_header = [0x41, 0x72, 0x74, 0x2d, 0x4e, 0x65, 0x74, 0x00, 0x00, 0x50, 0x00, 0x0e, 0x00, 0x00]"
  by (simp add: build_artnet_header_def)

lemma length_build_artnet_header: "length build_artnet_header = 14"
  by (simp add: build_artnet_header_bytes)

lemma handle_data_wrong_header:
  "take 12 data \<noteq> take 12 (priv_artnet_header self) \<Longrightarrow>
   handle_data self h buf data = Inr (self\<lparr>status := ''Invalid Data''\<rparr>, h)"
  by (simp add: handle_data_def)

lemma handle_data_wrong_universe:
  "take 4 (drop 14 data) \<noteq> priv_data_header self \<Longrightarrow>
   handle_data self h buf data = Inr (self\<lparr>status := ''Invalid Data''\<rparr>, h)"
  by (simp add: handle_data_def)

lemma handle_data_accept:
  "take 12 data = take 12 (priv_artnet_header self) \<Longrightarrow>
   take 4 (drop 14 data) = priv_data_header self \<Longrightarrow>
   handle_data self h buf data =
     Inr (self\<lparr>status := ''Receiving '' @ str_nat (length data - 18) @ '' Channels''\<rparr>,
          h(buf := take (min (length (h buf)) (length data - 18)) (drop 18 data)
                   @ drop (min (length (h buf)) (length data - 18)) (h buf)))"
  by (simp add: handle_data_def copy_channels_to_buffer_eq)

lemma frame_slices:
  "take 12 (build_artnet_header @ build_data_header U @ P) = take 12 build_artnet_header"
  "take 4 (drop 14 (build_artnet_header @ build_data_header U @ P)) = build_data_header U"
  "drop 18 (build_artnet_header @ build_data_header U @ P) = P"
  by (simp_all add: length_build_artnet_header length_build_data_header)

lemma str_nat_3: "str_nat (Suc (Suc (Suc 0))) = ''3''" by code_simp

subsection \<open>The module's receiver\<close>

text \<open>The accessor of the module reads the buffer of the global receiver; a valid frame
  received by the module replaces the front of that buffer.\<close>

lemma module_init_buffer:
  "m_heap module_init (priv_channels (receiver module_init)) = replicate 512 0"
  by (simp add: module_init_def MultithreadReceiver_init_def Receiver_init_def module_heap_def
      Receiver.extend_def Receiver_default_buffer_def MultithreadReceiver_default_buffer_def)

lemma get_dmx_channel_getitem:
  "get_dmx_channel m c = getitem (m_heap m (priv_channels (receiver m))) c"
  by (simp add: get_dmx_channel_def MultithreadReceiver_bool_def get_channel_def split: sum.split)

lemma module_receive_frame:
  assumes "priv_artnet_header (receiver m) = build_artnet_header"
    and "priv_data_header (receiver m) = build_data_header U"
    and "length P \<le> length (m_heap m (priv_channels (receiver m)))"
  shows "module_receive m (Datagram (build_artnet_header @ build_data_header U @ P)) =
     Inr (m\<lparr>m_heap := (m_heap m)(priv_channels (receiver m) :=
                 P @ drop (length P) (m_heap m (priv_channels (receiver m)))),
            receiver := (receiver m)\<lparr>status := ''Receiving '' @ str_nat (length P) @ '' Channels''\<rparr>\<rparr>)"
proof -
  let ?data = "build_artnet_header @ build_data_header U @ P"
  have len: "length ?data - 18 = length P"
    by (simp add: length_build_artnet_header length_build_data_header)
  have "handle_data (receiver m) (m_heap m) (priv_channels (receiver m)) ?data =
     Inr ((receiver m)\<lparr>status := ''Receiving '' @ str_nat (length ?data - 18) @ '' Channels''\<rparr>,
          (m_heap m)(priv_channels (receiver m) :=
             take (min (length (m_heap m (priv_channels (receiver m)))) (length ?data - 18)) (drop 18 ?data)
             @ drop (min (length (m_heap m (priv_channels (receiver m)))) (length ?data - 18))
                 (m_heap m (priv_channels (receiver m)))))"
    using assms(1,2) by (intro handle_data_accept) (simp_all only: frame_slices)
  then have "handle_data (receiver m) (m_heap m) (priv_channels (receiver m)) ?data =
     Inr ((receiver m)\<lparr>status := ''Receiving '' @ str_nat (length P) @ '' Channels''\<rparr>,
          (m_heap m)(priv_channels (receiver m) :=
             P @ drop (length P) (m_heap m (priv_channels (receiver m)))))"
    using assms(3) by (simp only: len frame_slices) (simp add: min_def)
  then show ?thesis
    by (simp add: module_receive_def receive_next_def receive_into_buffer_def)
qed

lemma module_init_headers:
  "priv_artnet_header (receiver module_init) = build_artnet_header"
  "priv_data_header (receiver module_init) = build_data_header 0"
  "priv_channels (receiver module_init) = MultithreadReceiver_default_buffer"
  "m_heap module_init MultithreadReceiver_default_buffer = replicate 512 0"
  by (simp_all add: module_init_def MultithreadReceiver_init_def Receiver_init_def Receiver.extend_def
      module_heap_def)

lemma str_nat_512: "str_nat 512 = ''512''" by code_simp

lemma module_receive_full_frame:
  "module_receive module_init
     (Datagram (build_artnet_header @ build_data_header 0 @ replicate 511 1 @ [99])) =
   Inr (module_init\<lparr>m_heap := (m_heap module_init)(MultithreadReceiver_default_buffer :=
                        replicate 511 1 @ [99]),
          receiver := (receiver module_init)\<lparr>status := ''Receiving 512 Channels''\<rparr>\<rparr>)"
  using module_receive_frame [of module_init 0 "replicate 511 1 @ [99]"]
  by (simp add: module_init_headers module_init_buffer str_nat_512)

subsection \<open>Closing and opening\<close>

text \<open>With no thread, or with a thread that has been started, \<^verbatim>\<open>close\<close> goes through.
  \<^verbatim>\<open>open\<close> on a receiver that was just constructed gives a bound socket and a started
  thread.\<close>

lemma MultithreadReceiver_close_ok:
  assumes "\<forall>t. priv_thread self = Some t \<longrightarrow> thread_started t"
  shows "MultithreadReceiver_close self =
           Inr (Receiver_close (self\<lparr>do_receive := False, stop_event := True\<rparr>))"
  using assms by (auto simp: MultithreadReceiver_close_def thread_join_def split: option.split)

lemma Receiver_close_fields:
  "status (Receiver_close self) = ''Inactive''"
  "do_receive (Receiver_close self) = do_receive self"
  "sock (Receiver_close self) = map_option (\<lambda>s. s\<lparr>sock_closed := True\<rparr>) (sock self)"
  by (simp_all add: Receiver_close_def split: option.split)

lemma Receiver_close_thread:
  "priv_thread (Receiver_close self) = priv_thread self"
  by (simp add: Receiver_close_def split: option.split)

lemma MultithreadReceiver_open_init:
  "MultithreadReceiver_open True (MultithreadReceiver_init ''127.0.0.1'' 6454 0 None) =
     Inr ((MultithreadReceiver_init ''127.0.0.1'' 6454 0 None)
           \<lparr>sock := Some \<lparr>sock_addr = Some (''127.0.0.1'', 6454), sock_closed = False\<rparr>,
            do_receive := True, priv_thread := Some \<lparr>thread_started = True\<rparr>\<rparr>)"
  by (simp add: MultithreadReceiver_open_def MultithreadReceiver_init_def Receiver_init_def
      Receiver.extend_def Receiver_open_def MultithreadReceiver.fields_def Let_def)

subsection \<open>What one received datagram changes\<close>

text \<open>Handling a datagram never raises; it changes the status and at most the buffer it
  was given, whose length stays the same. Two receivers constructed without a buffer
  argument refer to the same default object of their class.\<close>

lemma handle_data_effect:
  "\<exists>s out. handle_data self h buf data = Inr (self\<lparr>status := s\<rparr>, h(buf := out))
      \<and> length out = length (h buf)"
proof (cases "take 12 data = take 12 (priv_artnet_header self) \<and>
              take 4 (drop 14 data) = priv_data_header self")
  case True
  then have "handle_data self h buf data =
     Inr (self\<lparr>status := ''Receiving '' @ str_nat (length data - 18) @ '' Channels''\<rparr>,
          h(buf := take (min (length (h buf)) (length data - 18)) (drop 18 data)
                   @ drop (min (length (h buf)) (length data - 18)) (h buf)))"
    by (intro handle_data_accept) simp_all
  moreover have "length (take (min (length (h buf)) (length data - 18)) (drop 18 data)
                   @ drop (min (length (h buf)) (length data - 18)) (h buf)) = length (h buf)"
    by auto
  ultimately show ?thesis by blast
next
  case False
  then have "handle_data self h buf data = Inr (self\<lparr>status := ''Invalid Data''\<rparr>, h)"
    using handle_data_wrong_header handle_data_wrong_universe by blast
  then have "handle_data self h buf data = Inr (self\<lparr>status := ''Invalid Data''\<rparr>, h(buf := h buf))"
    by simp
  then show ?thesis by blast
qed

lemma receive_next_effect:
  "\<exists>s out. receive_next self h rv = Inr (self\<lparr>status := s\<rparr>, h(priv_channels self := out))
      \<and> length out = length (h (priv_channels self))"
proof (cases rv)
  case (Datagram data)
  then show ?thesis
    using handle_data_effect [of self h "priv_channels self" data]
    by (simp add: receive_next_def receive_into_buffer_def)
next
  case TimeoutError
  then have "receive_next self h rv =
      Inr (self\<lparr>status := ''Timeout''\<rparr>, h(priv_channels self := h (priv_channels self)))"
    by (simp add: receive_next_def receive_into_buffer_def)
  then show ?thesis by blast
next
  case (OtherException e)
  then have "receive_next self h rv =
      Inr (self\<lparr>status := ''Error '' @ e\<rparr>, h(priv_channels self := h (priv_channels self)))"
    by (simp add: receive_next_def receive_into_buffer_def)
  then show ?thesis by blast
qed

lemma default_buffer_shared:
  "priv_channels (Receiver_init ip port u None) = priv_channels (Receiver_init ip' port' u' None)"
  "priv_channels (MultithreadReceiver_init ip port u None) =
     priv_channels (MultithreadReceiver_init ip' port' u' None)"
  by (simp_all add: Receiver_init_def MultithreadReceiver_init_def Receiver.extend_def)

lemma str_nat_1: "str_nat (Suc 0) = ''1''" by code_simp

subsection \<open>Claims\<close>

text \<open>C1. For every universe \<open>U\<close> with \<open>0 \<le> U \<le> 32767\<close> and every payload \<open>P\<close> of at most
  512 bytes, the frame made of the receiver's protocol header, the universe header of
  \<open>U\<close> and \<open>P\<close> is accepted by a receiver configured for \<open>U\<close>: \<open>P\<close> is copied to the
  front of the 512-entry buffer and the status reports \<open>length P\<close> channels.\<close>

theorem handle_data_roundtrip:
  assumes "0 \<le> U" and "U \<le> 32767" and "length P \<le> 512" and "length (h buf) = 512"
    and "priv_artnet_header self = build_artnet_header"
    and "priv_data_header self = build_data_header U"
  shows "handle_data self h buf (build_artnet_header @ build_data_header U @ P) =
           Inr (self\<lparr>status := ''Receiving '' @ str_nat (length P) @ '' Channels''\<rparr>,
                h(buf := P @ drop (length P) (h buf)))"
proof -
  let ?data = "build_artnet_header @ build_data_header U @ P"
  have len: "length ?data - 18 = length P"
    by (simp add: length_build_artnet_header length_build_data_header)
  have "handle_data self h buf ?data =
     Inr (self\<lparr>status := ''Receiving '' @ str_nat (length ?data - 18) @ '' Channels''\<rparr>,
          h(buf := take (min (length (h buf)) (length ?data - 18)) (drop 18 ?data)
                   @ drop (min (length (h buf)) (length ?data - 18)) (h buf)))"
    using assms(5,6) by (intro handle_data_accept) (simp_all only: frame_slices)
  then show ?thesis using assms(3,4) by (simp only: len frame_slices) (simp add: min_def)
qed

theorem handle_data_roundtrip_witness:
  "handle_data (Receiver_init ''127.0.0.1'' 6454 3 None) module_heap Receiver_default_buffer
     (build_artnet_header @ build_data_header 3 @ [10, 20, 30]) =
   Inr ((Receiver_init ''127.0.0.1'' 6454 3 None)\<lparr>status := ''Receiving 3 Channels''\<rparr>,
        module_heap(Receiver_default_buffer := [10, 20, 30] @ replicate 509 0))"
  using handle_data_roundtrip [of 3 "[10, 20, 30]" module_heap Receiver_default_buffer
      "Receiver_init ''127.0.0.1'' 6454 3 None"]
  by (simp add: Receiver_init_def module_heap_def Receiver_default_buffer_def
      MultithreadReceiver_default_buffer_def str_nat_3)

text \<open>C4. A frame that is shorter than 18 bytes, or whose first 12 bytes are not the
  expected protocol header, is rejected whatever else it contains: the status becomes
  \<^verbatim>\<open>Invalid Data\<close> and the store, so every channel buffer, is left as it was.\<close>

theorem handle_data_header_mismatch:
  assumes "length data < 18 \<or> take 12 data \<noteq> take 12 build_artnet_header"
    and "priv_artnet_header self = build_artnet_header"
    and "priv_data_header self = build_data_header U"
  shows "handle_data self h buf data = Inr (self\<lparr>status := ''Invalid Data''\<rparr>, h)"
proof (cases "take 12 data = take 12 build_artnet_header")
  case False
  then show ?thesis using assms(2) by (simp add: handle_data_wrong_header)
next
  case True
  with assms(1) have "length data < 18" by simp
  then have "length (take 4 (drop 14 data)) < 4" by simp
  moreover have "length (priv_data_header self) = 4"
    using assms(3) by (simp only: length_build_data_header)
  ultimately have "take 4 (drop 14 data) \<noteq> priv_data_header self"
    by (metis nat_neq_iff)
  then show ?thesis by (rule handle_data_wrong_universe)
qed

theorem handle_data_header_mismatch_witness:
  "handle_data (Receiver_init ''127.0.0.1'' 6454 3 None) module_heap Receiver_default_buffer
     (take 12 build_artnet_header @ [0, 0, 3, 0, 2]) =
   Inr ((Receiver_init ''127.0.0.1'' 6454 3 None)\<lparr>status := ''Invalid Data''\<rparr>, module_heap)
   \<and> handle_data (Receiver_init ''127.0.0.1'' 6454 3 None) module_heap Receiver_default_buffer
     ([0x41, 0x72, 0x74, 0x2d, 0x4e, 0x65, 0x74, 0x00, 0x00, 0x50, 0x0e, 0x00, 0x00, 0x00]
        @ build_data_header 3 @ [10, 20, 30]) =
   Inr ((Receiver_init ''127.0.0.1'' 6454 3 None)\<lparr>status := ''Invalid Data''\<rparr>, module_heap)"
  using handle_data_header_mismatch [of "take 12 build_artnet_header @ [0, 0, 3, 0, 2]"
      "Receiver_init ''127.0.0.1'' 6454 3 None" 3 module_heap Receiver_default_buffer]
    handle_data_header_mismatch [of
      "[0x41, 0x72, 0x74, 0x2d, 0x4e, 0x65, 0x74, 0x00, 0x00, 0x50, 0x0e, 0x00, 0x00, 0x00]
        @ build_data_header 3 @ [10, 20, 30]"
      "Receiver_init ''127.0.0.1'' 6454 3 None" 3 module_heap Receiver_default_buffer]
  by (simp add: Receiver_init_def build_artnet_header_bytes)

text \<open>C5. A frame with the expected first 12 bytes whose bytes 14..18 are not the
  configured universe header is rejected, whatever bytes 12..14 are: the status becomes
  \<^verbatim>\<open>Invalid Data\<close> and no channel value changes.\<close>

theorem handle_data_universe_mismatch:
  assumes "take 12 data = take 12 build_artnet_header"
    and "take 4 (drop 14 data) \<noteq> build_data_header U"
    and "priv_artnet_header self = build_artnet_header"
    and "priv_data_header self = build_data_header U"
  shows "handle_data self h buf data = Inr (self\<lparr>status := ''Invalid Data''\<rparr>, h)"
  using assms by (simp add: handle_data_wrong_universe)

theorem handle_data_universe_mismatch_witness:
  "handle_data (Receiver_init ''127.0.0.1'' 6454 3 None) module_heap Receiver_default_buffer
     (build_artnet_header @ build_data_header 7 @ [10, 20, 30]) =
   Inr ((Receiver_init ''127.0.0.1'' 6454 3 None)\<lparr>status := ''Invalid Data''\<rparr>, module_heap)"
  using handle_data_universe_mismatch [of "build_artnet_header @ build_data_header 7 @ [10, 20, 30]"
      3 "Receiver_init ''127.0.0.1'' 6454 3 None" module_heap Receiver_default_buffer]
  by (simp add: Receiver_init_def build_artnet_header_bytes build_data_header_def)

text \<open>C6. On a 512-entry buffer the copy never raises and writes exactly the first
  \<open>min (length payload) 512\<close> bytes of the payload to the front of the buffer; the
  buffer keeps its length, and every position from \<open>length payload\<close> on keeps its value.\<close>

theorem copy_channels_to_buffer_512:
  assumes "length buf = 512"
  shows "\<exists>out. copy_channels_to_buffer payload buf = Inr out \<and>
           out = take (min (length payload) 512) payload @ drop (min (length payload) 512) buf \<and>
           length out = 512 \<and>
           (\<forall>i. i < min (length payload) 512 \<longrightarrow> out ! i = payload ! i) \<and>
           (\<forall>i. min (length payload) 512 \<le> i \<and> i < 512 \<longrightarrow> out ! i = buf ! i)"
proof -
  let ?n = "min (length payload) 512"
  let ?out = "take ?n payload @ drop ?n buf"
  have eq: "copy_channels_to_buffer payload buf = Inr ?out"
    using assms by (simp add: copy_channels_to_buffer_eq min.commute)
  have len: "length ?out = 512" using assms by auto
  have front: "\<forall>i. i < ?n \<longrightarrow> ?out ! i = payload ! i"
    by (simp add: nth_append)
  have tail_kept: "\<forall>i. ?n \<le> i \<and> i < 512 \<longrightarrow> ?out ! i = buf ! i"
    using assms by (auto simp: nth_append min_def)
  from eq len front tail_kept show ?thesis by blast
qed

theorem copy_channels_to_buffer_512_witness:
  "copy_channels_to_buffer [10, 20, 30] (replicate 512 7) = Inr ([10, 20, 30] @ replicate 509 7)
   \<and> copy_channels_to_buffer (replicate 600 9) (replicate 512 7) = Inr (replicate 512 9)"
  using copy_channels_to_buffer_512 [of "replicate 512 7" "[10, 20, 30]"]
    copy_channels_to_buffer_512 [of "replicate 512 7" "replicate 600 9"]
  by simp

text \<open>C2, as the code has it. On the 512-entry buffer of the global receiver the accessor
  returns a value for every index from \<open>-512\<close> to \<open>511\<close>: the byte stored at that
  position, counted from the end for a negative index, which is 0 as long as nothing has
  been received. For every other index the \<^verbatim>\<open>IndexError\<close> of the buffer reaches the
  caller.\<close>

theorem get_dmx_channel_in_range:
  assumes "length (m_heap m (priv_channels (receiver m))) = 512"
  shows "(- 512 \<le> c \<and> c < 512 \<longrightarrow>
            get_dmx_channel m c = Inr (uint (m_heap m (priv_channels (receiver m)) ! nat (c mod 512))))
       \<and> (- 512 \<le> c \<and> c < 512 \<longrightarrow> get_dmx_channel module_init c = Inr 0)
       \<and> (c < - 512 \<or> 512 \<le> c \<longrightarrow> get_dmx_channel m c = Inl IndexError)"
proof -
  have a: "- 512 \<le> c \<and> c < 512 \<longrightarrow>
      get_dmx_channel m c = Inr (uint (m_heap m (priv_channels (receiver m)) ! nat (c mod 512)))"
  proof (cases "0 \<le> c")
    case True
    then show ?thesis using assms by (auto simp: get_dmx_channel_getitem getitem_def)
  next
    case False
    have "c mod 512 = 512 + c" if "- 512 \<le> c"
    proof -
      have "(512 + c) mod 512 = 512 + c"
        using that False by (intro mod_pos_pos_trivial) auto
      then show ?thesis by simp
    qed
    then show ?thesis using assms False by (auto simp: get_dmx_channel_getitem getitem_def)
  qed
  have b: "- 512 \<le> c \<and> c < 512 \<longrightarrow> get_dmx_channel module_init c = Inr 0"
    by (auto simp: get_dmx_channel_getitem module_init_buffer getitem_def)
  have d: "c < - 512 \<or> 512 \<le> c \<longrightarrow> get_dmx_channel m c = Inl IndexError"
    using assms by (auto simp: get_dmx_channel_getitem getitem_def)
  from a b d show ?thesis by blast
qed

theorem get_dmx_channel_in_range_witness:
  "module_receive module_init
     (Datagram (build_artnet_header @ build_data_header 0 @ replicate 511 1 @ [99])) =
   Inr (module_init\<lparr>m_heap := (m_heap module_init)(MultithreadReceiver_default_buffer :=
                        replicate 511 1 @ [99]),
          receiver := (receiver module_init)\<lparr>status := ''Receiving 512 Channels''\<rparr>\<rparr>)
   \<and> get_dmx_channel (module_init\<lparr>m_heap := (m_heap module_init)(MultithreadReceiver_default_buffer :=
                        replicate 511 1 @ [99]),
          receiver := (receiver module_init)\<lparr>status := ''Receiving 512 Channels''\<rparr>\<rparr>) 0 = Inr 1
   \<and> get_dmx_channel module_init 0 = Inr 0
   \<and> get_dmx_channel (module_init\<lparr>m_heap := (m_heap module_init)(MultithreadReceiver_default_buffer :=
                        replicate 511 1 @ [99]),
          receiver := (receiver module_init)\<lparr>status := ''Receiving 512 Channels''\<rparr>\<rparr>) 600 = Inl IndexError"
  using get_dmx_channel_in_range [of "(module_init\<lparr>m_heap := (m_heap module_init)(MultithreadReceiver_default_buffer :=
                        replicate 511 1 @ [99]),
          receiver := (receiver module_init)\<lparr>status := ''Receiving 512 Channels''\<rparr>\<rparr>)" 0]
    get_dmx_channel_in_range [of "(module_init\<lparr>m_heap := (m_heap module_init)(MultithreadReceiver_default_buffer :=
                        replicate 511 1 @ [99]),
          receiver := (receiver module_init)\<lparr>status := ''Receiving 512 Channels''\<rparr>\<rparr>)" 600]
  by (simp add: module_receive_full_frame module_init_headers nth_append)

text \<open>C2 as stated fails: on the freshly loaded module, index 512 raises.\<close>

theorem get_dmx_channel_counterexample:
  "get_dmx_channel module_init 512 = Inl IndexError"
  by (simp add: get_dmx_channel_getitem module_init_buffer getitem_def)

text \<open>C3, as the code has it. The first 12 bytes of the header carry the protocol
  version \<open>0x000e\<close> at offsets 10 and 11 with the high byte first: \<open>0x00\<close>, then
  \<open>0x0e\<close>.\<close>

theorem version_bytes_big_endian:
  "length (take 12 build_artnet_header) = 12 \<and>
   take 12 build_artnet_header ! 10 = 0x00 \<and> take 12 build_artnet_header ! 11 = 0x0e \<and>
   256 * uint (take 12 build_artnet_header ! 10) + uint (take 12 build_artnet_header ! 11) = 0x000e"
  by (simp add: build_artnet_header_bytes)

text \<open>C3 as stated fails: the bytes at offsets 10 and 11 are not \<open>0x0e\<close>, \<open>0x00\<close>.\<close>

theorem version_bytes_counterexample:
  "\<not> (take 12 build_artnet_header ! 10 = 0x0e \<and> take 12 build_artnet_header ! 11 = 0x00)"
  by (simp add: build_artnet_header_bytes)

text \<open>C7. On a 512-entry buffer, reading channel \<open>i\<close> raises \<^verbatim>\<open>IndexError\<close> for every
  \<open>i \<ge> 512\<close>. A receiver built with the default buffer, of either class, returns 0 for
  every channel number \<open>n < 512\<close> before anything has been written. A channel number is
  a natural number here.\<close>

theorem get_channel_range:
  "(length (h (priv_channels self)) = 512 \<and> 512 \<le> i \<longrightarrow> get_channel self h i = Inl IndexError)
   \<and> (n < 512 \<longrightarrow> get_channel (Receiver_init ip port u None) module_heap (int n) = Inr 0)
   \<and> (n < 512 \<longrightarrow> get_channel (MultithreadReceiver_init ip port u None) module_heap (int n) = Inr 0)"
  by (auto simp: get_channel_def getitem_def Receiver_init_def MultithreadReceiver_init_def
      module_heap_def Receiver.extend_def Receiver_default_buffer_def MultithreadReceiver_default_buffer_def)

theorem get_channel_range_witness:
  "get_channel (Receiver_init ''127.0.0.1'' 6454 0 None) module_heap 512 = Inl IndexError
   \<and> get_channel (Receiver_init ''127.0.0.1'' 6454 0 None) module_heap 511 = Inr 0
   \<and> get_channel (MultithreadReceiver_init ''127.0.0.1'' 6454 0 None) module_heap 0 = Inr 0"
  using get_channel_range [of module_heap "Receiver_init ''127.0.0.1'' 6454 0 None" 512 511
      "''127.0.0.1''" 6454 0]
    get_channel_range [of module_heap "Receiver_init ''127.0.0.1'' 6454 0 None" 512 0
      "''127.0.0.1''" 6454 0]
  by (simp add: Receiver_init_def module_heap_def Receiver_default_buffer_def
      MultithreadReceiver_default_buffer_def)

text \<open>C10. For every \<open>c\<close> from \<open>-512\<close> to \<open>-1\<close> the accessor of the module does not
  raise on a 512-entry buffer: it returns the byte at position \<open>512 + c\<close>, the same
  value as for the channel number \<open>512 + c\<close>.\<close>

theorem get_dmx_channel_negative:
  assumes "length (m_heap m (priv_channels (receiver m))) = 512" and "- 512 \<le> c" and "c \<le> - 1"
  shows "get_dmx_channel m c = Inr (uint (m_heap m (priv_channels (receiver m)) ! nat (512 + c)))
       \<and> get_dmx_channel m c = get_dmx_channel m (512 + c)"
  using assms by (auto simp: get_dmx_channel_getitem getitem_def)

theorem get_dmx_channel_negative_witness:
  "module_receive module_init
     (Datagram (build_artnet_header @ build_data_header 0 @ replicate 511 1 @ [99])) =
   Inr (module_init\<lparr>m_heap := (m_heap module_init)(MultithreadReceiver_default_buffer :=
                        replicate 511 1 @ [99]),
          receiver := (receiver module_init)\<lparr>status := ''Receiving 512 Channels''\<rparr>\<rparr>)
   \<and> get_dmx_channel (module_init\<lparr>m_heap := (m_heap module_init)(MultithreadReceiver_default_buffer :=
                        replicate 511 1 @ [99]),
          receiver := (receiver module_init)\<lparr>status := ''Receiving 512 Channels''\<rparr>\<rparr>) (- 1) = Inr 99
   \<and> get_dmx_channel (module_init\<lparr>m_heap := (m_heap module_init)(MultithreadReceiver_default_buffer :=
                        replicate 511 1 @ [99]),
          receiver := (receiver module_init)\<lparr>status := ''Receiving 512 Channels''\<rparr>\<rparr>) 511 = Inr 99"
  using get_dmx_channel_negative [of "(module_init\<lparr>m_heap := (m_heap module_init)(MultithreadReceiver_default_buffer :=
                        replicate 511 1 @ [99]),
          receiver := (receiver module_init)\<lparr>status := ''Receiving 512 Channels''\<rparr>\<rparr>)" "- 1"]
  by (auto simp: module_receive_full_frame module_init_headers nth_append)

text \<open>C8. \<^verbatim>\<open>close\<close> on a receiver whose thread, if it has one, has been started returns
  without an exception and leaves the status \<^verbatim>\<open>Inactive\<close>, and so does a second
  \<^verbatim>\<open>close\<close> right after it. \<^verbatim>\<open>close\<close> on a receiver that was only constructed, with no
  socket and no thread, returns as well and leaves the status \<^verbatim>\<open>Inactive\<close>. The same
  holds for \<^verbatim>\<open>Receiver.close\<close> of the base class, which cannot raise.\<close>

theorem close_twice:
  "((\<forall>t. priv_thread self = Some t \<longrightarrow> thread_started t) \<longrightarrow>
      (\<exists>s1 s2. MultithreadReceiver_close self = Inr s1 \<and> status s1 = ''Inactive'' \<and>
               MultithreadReceiver_close s1 = Inr s2 \<and> status s2 = ''Inactive''))
   \<and> (\<exists>s. MultithreadReceiver_close (MultithreadReceiver_init ip port u cb) = Inr s \<and>
            status s = ''Inactive'' \<and> sock s = None \<and> priv_thread s = None)
   \<and> status (Receiver_close (Receiver_close (r :: Receiver))) = ''Inactive''
   \<and> status (Receiver_close (Receiver_init ip port u cb')) = ''Inactive''"
proof -
  have a: "\<exists>s1 s2. MultithreadReceiver_close self = Inr s1 \<and> status s1 = ''Inactive'' \<and>
               MultithreadReceiver_close s1 = Inr s2 \<and> status s2 = ''Inactive''"
    if st: "\<forall>t. priv_thread self = Some t \<longrightarrow> thread_started t"
  proof -
    let ?s1 = "Receiver_close (self\<lparr>do_receive := False, stop_event := True\<rparr>)"
    let ?s2 = "Receiver_close (?s1\<lparr>do_receive := False, stop_event := True\<rparr>)"
    have 1: "MultithreadReceiver_close self = Inr ?s1"
      using st by (rule MultithreadReceiver_close_ok)
    have "\<forall>t. priv_thread ?s1 = Some t \<longrightarrow> thread_started t"
      using st by (simp add: Receiver_close_thread)
    then have 2: "MultithreadReceiver_close ?s1 = Inr ?s2"
      by (rule MultithreadReceiver_close_ok)
    from 1 2 show ?thesis by (simp add: Receiver_close_fields)
  qed
  have b: "\<exists>s. MultithreadReceiver_close (MultithreadReceiver_init ip port u cb) = Inr s \<and>
            status s = ''Inactive'' \<and> sock s = None \<and> priv_thread s = None"
    by (simp add: MultithreadReceiver_close_def MultithreadReceiver_init_def Receiver_init_def
        Receiver.extend_def Receiver_close_def MultithreadReceiver.fields_def)
  have c: "status (Receiver_close (Receiver_close (r :: Receiver))) = ''Inactive''"
    by (simp add: Receiver_close_fields)
  have d: "status (Receiver_close (Receiver_init ip port u cb')) = ''Inactive''"
    by (simp add: Receiver_close_fields)
  from a b c d show ?thesis by blast
qed

theorem close_twice_witness:
  "MultithreadReceiver_close ((MultithreadReceiver_init ''127.0.0.1'' 6454 0 None)
           \<lparr>sock := Some \<lparr>sock_addr = Some (''127.0.0.1'', 6454), sock_closed = False\<rparr>,
            do_receive := True, priv_thread := Some \<lparr>thread_started = True\<rparr>\<rparr>) =
     Inr ((MultithreadReceiver_init ''127.0.0.1'' 6454 0 None)
           \<lparr>sock := Some \<lparr>sock_addr = Some (''127.0.0.1'', 6454), sock_closed = True\<rparr>,
            priv_thread := Some \<lparr>thread_started = True\<rparr>, stop_event := True\<rparr>)
   \<and> MultithreadReceiver_close ((MultithreadReceiver_init ''127.0.0.1'' 6454 0 None)
           \<lparr>sock := Some \<lparr>sock_addr = Some (''127.0.0.1'', 6454), sock_closed = True\<rparr>,
            priv_thread := Some \<lparr>thread_started = True\<rparr>, stop_event := True\<rparr>) =
     Inr ((MultithreadReceiver_init ''127.0.0.1'' 6454 0 None)
           \<lparr>sock := Some \<lparr>sock_addr = Some (''127.0.0.1'', 6454), sock_closed = True\<rparr>,
            priv_thread := Some \<lparr>thread_started = True\<rparr>, stop_event := True\<rparr>)
   \<and> status ((MultithreadReceiver_init ''127.0.0.1'' 6454 0 None)
           \<lparr>sock := Some \<lparr>sock_addr = Some (''127.0.0.1'', 6454), sock_closed = True\<rparr>,
            priv_thread := Some \<lparr>thread_started = True\<rparr>, stop_event := True\<rparr>) = ''Inactive''"
  using close_twice [of "(MultithreadReceiver_init ''127.0.0.1'' 6454 0 None)
           \<lparr>sock := Some \<lparr>sock_addr = Some (''127.0.0.1'', 6454), sock_closed = False\<rparr>,
            do_receive := True, priv_thread := Some \<lparr>thread_started = True\<rparr>\<rparr>"]
  by (simp add: MultithreadReceiver_close_def MultithreadReceiver_init_def Receiver_init_def
      Receiver.extend_def Receiver_close_def MultithreadReceiver.fields_def thread_join_def)

text \<open>C9, as the code has it. A receiver keeps a reference to the buffer it was constructed
  with. When the buffers of two receivers are different objects, a datagram, timeout
  or socket error handled by the first never raises, leaves the first on its own buffer
  and changes no channel value read through the second.\<close>

theorem distinct_buffers_independent:
  assumes "priv_channels r1 \<noteq> priv_channels r2"
  shows "priv_channels (Receiver_init ip port u (Some b)) = b \<and>
         (\<exists>r1' h'. receive_next r1 h rv = Inr (r1', h') \<and>
            priv_channels r1' = priv_channels r1 \<and>
            get_channels r2 h' = get_channels r2 h \<and>
            (\<forall>i. get_channel r2 h' i = get_channel r2 h i))"
proof -
  obtain s out where
    "receive_next r1 h rv = Inr (r1\<lparr>status := s\<rparr>, h(priv_channels r1 := out))"
    using receive_next_effect [of r1 h rv] by blast
  moreover have "get_channels r2 (h(priv_channels r1 := out)) = get_channels r2 h"
    using assms by (simp add: get_channels_def)
  moreover have "\<forall>i. get_channel r2 (h(priv_channels r1 := out)) i = get_channel r2 h i"
    using assms by (simp add: get_channel_def)
  moreover have "priv_channels (r1\<lparr>status := s\<rparr>) = priv_channels r1" by simp
  moreover have "priv_channels (Receiver_init ip port u (Some b)) = b"
    by (simp add: Receiver_init_def)
  ultimately show ?thesis by blast
qed

theorem distinct_buffers_independent_witness:
  "receive_next (Receiver_init ''127.0.0.1'' 6454 0 (Some 2))
     (module_heap(2 := replicate 512 0, 3 := replicate 512 0))
     (Datagram (build_artnet_header @ build_data_header 0 @ [10])) =
   Inr ((Receiver_init ''127.0.0.1'' 6454 0 (Some 2))\<lparr>status := ''Receiving 1 Channels''\<rparr>,
        module_heap(2 := 10 # replicate 511 0, 3 := replicate 512 0))
   \<and> get_channel (Receiver_init ''127.0.0.1'' 6455 0 (Some 3))
        (module_heap(2 := 10 # replicate 511 0, 3 := replicate 512 0)) 0 = Inr 0
   \<and> get_channel (Receiver_init ''127.0.0.1'' 6454 0 (Some 2))
        (module_heap(2 := 10 # replicate 511 0, 3 := replicate 512 0)) 0 = Inr 10"
  using distinct_buffers_independent [of "Receiver_init ''127.0.0.1'' 6454 0 (Some 2)"
      "Receiver_init ''127.0.0.1'' 6455 0 (Some 3)" "''127.0.0.1''" 6454 0 2
      "module_heap(2 := replicate 512 0, 3 := replicate 512 0)"
      "Datagram (build_artnet_header @ build_data_header 0 @ [10])"]
    handle_data_accept [of "build_artnet_header @ build_data_header 0 @ [10]"
      "Receiver_init ''127.0.0.1'' 6454 0 (Some 2)"
      "module_heap(2 := replicate 512 0, 3 := replicate 512 0)" 2]
  by (simp add: receive_next_def receive_into_buffer_def Receiver_init_def frame_slices
      length_build_artnet_header length_build_data_header str_nat_1 get_channel_def getitem_def
      fun_upd_twist)

text \<open>C9 as stated fails: two receivers constructed one after the other with the same
  \<^verbatim>\<open>bytearray\<close> as \<^verbatim>\<open>channel_buffer\<close> share it, and a frame received by the first
  changes channel 0 read through the second from 0 to 10.\<close>

theorem shared_buffer_counterexample:
  "priv_channels (Receiver_init ''127.0.0.1'' 6454 0 (Some 2)) =
     priv_channels (Receiver_init ''127.0.0.1'' 6455 0 (Some 2))
   \<and> get_channel (Receiver_init ''127.0.0.1'' 6455 0 (Some 2))
        (module_heap(2 := replicate 512 0)) 0 = Inr 0
   \<and> receive_next (Receiver_init ''127.0.0.1'' 6454 0 (Some 2))
       (module_heap(2 := replicate 512 0))
       (Datagram (build_artnet_header @ build_data_header 0 @ [10])) =
     Inr ((Receiver_init ''127.0.0.1'' 6454 0 (Some 2))\<lparr>status := ''Receiving 1 Channels''\<rparr>,
          module_heap(2 := 10 # replicate 511 0))
   \<and> get_channel (Receiver_init ''127.0.0.1'' 6455 0 (Some 2))
        (module_heap(2 := 10 # replicate 511 0)) 0 = Inr 10"
  using handle_data_accept [of "build_artnet_header @ build_data_header 0 @ [10]"
      "Receiver_init ''127.0.0.1'' 6454 0 (Some 2)"
      "module_heap(2 := replicate 512 0)" 2]
  by (simp add: receive_next_def receive_into_buffer_def Receiver_init_def frame_slices
      length_build_artnet_header length_build_data_header str_nat_1 get_channel_def getitem_def)

end
